theory Spec2Isabelle
  imports Main "HOL-Library.Word"
begin

section \<open>The volume super block of weed/storage/volume\_super\_block.go\<close>

text \<open>
  A shallow embedding of \<^verbatim>\<open>SuperBlock.BlockSize\<close>, \<^verbatim>\<open>SuperBlock.Bytes\<close>,
  \<^verbatim>\<open>Volume.maybeWriteSuperBlock\<close> and \<^verbatim>\<open>ReadSuperBlock\<close>. Go's \<^verbatim>\<open>byte\<close> and
  \<^verbatim>\<open>uint16\<close> are words, \<^verbatim>\<open>int\<close> lengths are natural numbers (a slice length is
  never negative and no length below is added to anything that could overflow 63 bits).
\<close>

unbundle bit_operations_syntax

type_synonym byte = "8 word"
type_synonym uint16 = "16 word"

subsection \<open>Errors\<close>

text \<open>
  Go \<^verbatim>\<open>error\<close> values. \<open>ErrPermission\<close> stands for the errors on which
  \<^verbatim>\<open>os.IsPermission\<close> answers true, \<open>ErrEOF\<close> is \<^verbatim>\<open>io.EOF\<close>, \<open>ErrOS\<close> any other
  failure of a system call, \<open>ErrCodec\<close> an error of one of the value codecs. The last four
  constructors are the four \<^verbatim>\<open>fmt.Errorf\<close> wrappers of \<^verbatim>\<open>ReadSuperBlock\<close>; those
  with a string carry the file name that the message prints.
\<close>

datatype error =
    ErrPermission
  | ErrEOF
  | ErrNotExist
  | ErrOS string
  | ErrCodec string
  | CannotSeek string error
  | CannotReadSuperBlock string error
  | CannotReadReplicaType error
  | CannotReadExtra string error

fun IsPermission :: "error \<Rightarrow> bool" where
  "IsPermission ErrPermission = True"
| "IsPermission _ = False"

text \<open>
  \<^verbatim>\<open>glog.Fatalf\<close> logs and ends the process: \<^verbatim>\<open>Bytes\<close> has two such exits, told apart by
  their messages ("cannot marshal super block extra" and "super block extra size is
  \<open>n\<close> bigger than 65534").
\<close>

datatype fatal =
    FatalMarshal error
  | FatalExtraSize nat

subsection \<open>The value codecs\<close>

text \<open>
  Modelled from the spec: \<^verbatim>\<open>util.Uint16toBytes\<close> and \<^verbatim>\<open>util.BytesToUint16\<close> belong
  to package util, whose source is not at hand. The spec says that a 16-bit field is "a
  fixed-width integer with a single, consistent byte order used by both encode and
  decode" and does not name the order, so the order is a parameter.
\<close>

datatype byte_order = BigEndian | LittleEndian

fun Uint16toBytes :: "byte_order \<Rightarrow> uint16 \<Rightarrow> byte \<times> byte" where
  "Uint16toBytes BigEndian v = (ucast (drop_bit 8 v), ucast v)"
| "Uint16toBytes LittleEndian v = (ucast v, ucast (drop_bit 8 v))"

fun BytesToUint16 :: "byte_order \<Rightarrow> byte \<times> byte \<Rightarrow> uint16" where
  "BytesToUint16 BigEndian (b0, b1) = push_bit 8 (ucast b0) + ucast b1"
| "BytesToUint16 LittleEndian (b0, b1) = push_bit 8 (ucast b1) + ucast b0"

text \<open>
  The replica placement, the time to live and the protobuf message
  \<^verbatim>\<open>master_pb.SuperBlockExtra\<close> are types of other packages; the super block only calls
  their codecs, which are the fields of this record:
  \<^item> \<open>rp_Byte\<close> is \<^verbatim>\<open>(*ReplicaPlacement).Byte\<close>, one byte;
  \<^item> \<open>NewReplicaPlacementFromByte\<close> can fail;
  \<^item> \<open>ttl_ToBytes\<close> is \<^verbatim>\<open>(*TTL).ToBytes\<close>: the two bytes it leaves in the slice
    \<^verbatim>\<open>header[2:4]\<close>; \<open>LoadTTLFromBytes\<close> reads two bytes and cannot fail;
  \<^item> \<open>Marshal\<close> and \<open>Unmarshal\<close> are \<^verbatim>\<open>proto.Marshal\<close> and \<^verbatim>\<open>proto.Unmarshal\<close>
    into a fresh \<^verbatim>\<open>SuperBlockExtra\<close>; both can fail.
\<close>

record ('rp, 'ttl, 'ext) codecs =
  order :: byte_order
  rp_Byte :: "'rp \<Rightarrow> byte"
  NewReplicaPlacementFromByte :: "byte \<Rightarrow> error + 'rp"
  ttl_ToBytes :: "'ttl \<Rightarrow> byte \<times> byte"
  LoadTTLFromBytes :: "byte \<times> byte \<Rightarrow> 'ttl"
  Marshal :: "'ext \<Rightarrow> error + byte list"
  Unmarshal :: "byte list \<Rightarrow> error + 'ext"

subsection \<open>The super block\<close>

text \<open>\<^verbatim>\<open>Extra\<close> is a pointer that the code tests against \<^verbatim>\<open>nil\<close>: an option.\<close>

record ('rp, 'ttl, 'ext) SuperBlock =
  version :: byte
  ReplicaPlacement :: 'rp
  Ttl :: 'ttl
  CompactRevision :: uint16
  Extra :: "'ext option"
  extraSize :: uint16

definition SuperBlockSize :: nat where
  "SuperBlockSize = 8"

text \<open>Modelled from the spec: the constants of type \<^verbatim>\<open>Version\<close> are declared in
  another file of the package; the spec gives the recognised values 1, 2 and 3.\<close>

definition Version1 :: byte where "Version1 = 1"
definition Version2 :: byte where "Version2 = 2"
definition Version3 :: byte where "Version3 = 3"

definition BlockSize :: "('rp, 'ttl, 'ext) SuperBlock \<Rightarrow> nat" where
  "BlockSize s =
     (if version s = Version2 \<or> version s = Version3
      then SuperBlockSize + unat (extraSize s)
      else SuperBlockSize)"

text \<open>
  \<^verbatim>\<open>Bytes\<close> returns the encoded header and, since it assigns \<^verbatim>\<open>s.extraSize\<close>, the
  super block after the call. \<open>fixed\<close> is the slice \<^verbatim>\<open>make([]byte, 8)\<close> after the
  assignments to its indices 0 to 5 (indices 6 and 7 keep the zero of \<^verbatim>\<open>make\<close>);
  with an extension, indices 6 and 7 are assigned and the marshalled bytes appended.
\<close>

definition Bytes ::
  "('rp, 'ttl, 'ext) codecs \<Rightarrow> ('rp, 'ttl, 'ext) SuperBlock \<Rightarrow>
   fatal + (byte list \<times> ('rp, 'ttl, 'ext) SuperBlock)" where
  "Bytes c s =
     (let t = ttl_ToBytes c (Ttl s);
          r = Uint16toBytes (order c) (CompactRevision s);
          fixed = [version s, rp_Byte c (ReplicaPlacement s), fst t, snd t, fst r, snd r]
      in case Extra s of
           None \<Rightarrow> Inr (fixed @ [0, 0], s)
         | Some x \<Rightarrow>
             (case Marshal c x of
                Inl err \<Rightarrow> Inl (FatalMarshal err)
              | Inr extraData \<Rightarrow>
                  if length extraData > 256 * 256 - 2
                  then Inl (FatalExtraSize (length extraData))
                  else
                    let s' = s\<lparr>extraSize := of_nat (length extraData)\<rparr>;
                        e = Uint16toBytes (order c) (extraSize s')
                    in Inr (fixed @ [fst e, snd e] @ extraData, s')))"

subsection \<open>Files\<close>

text \<open>
  The part of package \<^verbatim>\<open>os\<close> that the two file functions call. An \<^verbatim>\<open>*os.File\<close> is a
  name and a read/write offset. The operating system is the content of each path, the
  calls made so far, and a script of injected failures: each call takes the head of
  \<open>faults\<close>; \<open>Some e\<close> makes the call fail with \<open>e\<close> and change nothing, \<open>None\<close> (or an
  exhausted script) lets it run.
\<close>

record File =
  Name :: string
  offset :: nat

datatype syscall =
    SysStat string
  | SysSeek string
  | SysRead string nat
  | SysWrite string "byte list"
  | SysCreate string

record OS =
  disk :: "string \<Rightarrow> byte list option"
  faults :: "error option list"
  trace :: "syscall list"

definition enter :: "syscall \<Rightarrow> OS \<Rightarrow> error option \<times> OS" where
  "enter call w =
     (case faults w of
        [] \<Rightarrow> (None, w\<lparr>trace := trace w @ [call]\<rparr>)
      | x # xs \<Rightarrow> (x, w\<lparr>faults := xs, trace := trace w @ [call]\<rparr>))"

text \<open>\<^verbatim>\<open>f.Stat()\<close> followed by \<^verbatim>\<open>Size()\<close>.\<close>

definition Stat :: "File \<Rightarrow> OS \<Rightarrow> (error + nat) \<times> OS" where
  "Stat f w =
     (case enter (SysStat (Name f)) w of
        (Some e, w') \<Rightarrow> (Inl e, w')
      | (None, w') \<Rightarrow>
          (case disk w' (Name f) of
             None \<Rightarrow> (Inl ErrNotExist, w')
           | Some bs \<Rightarrow> (Inr (length bs), w')))"

text \<open>\<^verbatim>\<open>f.Seek(0, 0)\<close>: the offset becomes 0.\<close>

definition Seek0 :: "File \<Rightarrow> OS \<Rightarrow> error option \<times> File \<times> OS" where
  "Seek0 f w =
     (case enter (SysSeek (Name f)) w of
        (Some e, w') \<Rightarrow> (Some e, f, w')
      | (None, w') \<Rightarrow> (None, f\<lparr>offset := 0\<rparr>, w'))"

text \<open>
  \<^verbatim>\<open>f.Read(b)\<close> with \<^verbatim>\<open>len(b) = n\<close>: "Read reads up to len(b) bytes from the File
  and stores them in b. It returns the number of bytes read and any error encountered.
  At end of file, Read returns 0, io.EOF." The result is the bytes stored: fewer than
  \<open>n\<close> when the file ends before, with no error unless there is none at all.
\<close>

definition Read :: "File \<Rightarrow> nat \<Rightarrow> OS \<Rightarrow> (error + byte list) \<times> File \<times> OS" where
  "Read f n w =
     (case enter (SysRead (Name f) n) w of
        (Some e, w') \<Rightarrow> (Inl e, f, w')
      | (None, w') \<Rightarrow>
          (case disk w' (Name f) of
             None \<Rightarrow> (Inl ErrNotExist, f, w')
           | Some bs \<Rightarrow>
               let got = take n (drop (offset f) bs)
               in if got = [] \<and> 0 < n then (Inl ErrEOF, f, w')
                  else (Inr got, f\<lparr>offset := offset f + length got\<rparr>, w')))"

text \<open>
  \<^verbatim>\<open>f.Write(b)\<close>: the bytes replace the content from the offset on, after zeros when the
  offset is beyond the end, and the offset moves behind them.
\<close>

definition Write :: "File \<Rightarrow> byte list \<Rightarrow> OS \<Rightarrow> error option \<times> File \<times> OS" where
  "Write f b w =
     (case enter (SysWrite (Name f) b) w of
        (Some e, w') \<Rightarrow> (Some e, f, w')
      | (None, w') \<Rightarrow>
          (case disk w' (Name f) of
             None \<Rightarrow> (Some ErrNotExist, f, w')
           | Some bs \<Rightarrow>
               let bs' = take (offset f) bs @ replicate (offset f - length bs) 0 @ b
                           @ drop (offset f + length b) bs
               in (None, f\<lparr>offset := offset f + length b\<rparr>,
                   w'\<lparr>disk := (disk w')(Name f \<mapsto> bs')\<rparr>)))"

text \<open>\<^verbatim>\<open>os.Create(name)\<close>: the file is created or truncated, the new handle is at 0.\<close>

definition Create :: "string \<Rightarrow> OS \<Rightarrow> (error + File) \<times> OS" where
  "Create name w =
     (case enter (SysCreate name) w of
        (Some e, w') \<Rightarrow> (Inl e, w')
      | (None, w') \<Rightarrow>
          (Inr \<lparr>Name = name, offset = 0\<rparr>, w'\<lparr>disk := (disk w')(name \<mapsto> [])\<rparr>))"

subsection \<open>Reading the super block\<close>

text \<open>
  \<^verbatim>\<open>ReadSuperBlock\<close> returns its result next to the file handle and the system after
  the calls. Go returns the partly filled struct together with a non-nil \<^verbatim>\<open>err\<close>; that
  the value is void then is the \<open>Inl\<close> branch. \<open>header\<close> is the 8-byte slice after
  \<^verbatim>\<open>Read\<close>: the bytes read, then the zeros of \<^verbatim>\<open>make\<close>. \<open>extraData\<close> is passed to
  \<^verbatim>\<open>proto.Unmarshal\<close> as \<^verbatim>\<open>make\<close> returned it: no call fills it.
\<close>

definition ReadSuperBlock ::
  "('rp, 'ttl, 'ext) codecs \<Rightarrow> File \<Rightarrow> OS \<Rightarrow>
   (error + ('rp, 'ttl, 'ext) SuperBlock) \<times> File \<times> OS" where
  "ReadSuperBlock c dataFile w =
     (case Seek0 dataFile w of
        (Some err, f1, w1) \<Rightarrow> (Inl (CannotSeek (Name dataFile) err), f1, w1)
      | (None, f1, w1) \<Rightarrow>
          (case Read f1 SuperBlockSize w1 of
             (Inl e, f2, w2) \<Rightarrow> (Inl (CannotReadSuperBlock (Name dataFile) e), f2, w2)
           | (Inr got, f2, w2) \<Rightarrow>
               let header = got @ replicate (SuperBlockSize - length got) 0
               in (case NewReplicaPlacementFromByte c (header ! 1) of
                     Inl err \<Rightarrow> (Inl (CannotReadReplicaType err), f2, w2)
                   | Inr rp \<Rightarrow>
                       let superBlock =
                             \<lparr>version = header ! 0,
                              ReplicaPlacement = rp,
                              Ttl = LoadTTLFromBytes c (header ! 2, header ! 3),
                              CompactRevision = BytesToUint16 (order c) (header ! 4, header ! 5),
                              Extra = None,
                              extraSize = BytesToUint16 (order c) (header ! 6, header ! 7)\<rparr>
                       in if extraSize superBlock > 0
                          then
                            let extraData = replicate (unat (extraSize superBlock)) (0 :: byte)
                            in (case Unmarshal c extraData of
                                  Inl err \<Rightarrow> (Inl (CannotReadExtra (Name dataFile) err), f2, w2)
                                | Inr x \<Rightarrow> (Inr (superBlock\<lparr>Extra := Some x\<rparr>), f2, w2))
                          else (Inr superBlock, f2, w2))))"

subsection \<open>Writing the super block of a new volume\<close>

text \<open>
  The fields of \<^verbatim>\<open>Volume\<close> that \<^verbatim>\<open>maybeWriteSuperBlock\<close> touches. \<^verbatim>\<open>dataFile\<close> is a
  pointer: \<^verbatim>\<open>os.Create\<close> returns \<^verbatim>\<open>nil\<close> next to an error, and the code assigns it.
\<close>

record ('rp, 'ttl, 'ext) Volume =
  dataFile :: "File option"
  SuperBlock :: "('rp, 'ttl, 'ext) SuperBlock"
  readOnly :: bool

text \<open>
  How a call ends: it returns \<^verbatim>\<open>e\<close> (\<open>None\<close> is \<^verbatim>\<open>nil\<close>) with the volume and the
  system as the call left them; or \<^verbatim>\<open>Bytes\<close> ends the process; or the call panics on
  a nil \<^verbatim>\<open>dataFile\<close> (\<^verbatim>\<open>Stat\<close> of a nil file is an error, and the log line of that
  branch reads the name of the file).
\<close>

datatype ('rp, 'ttl, 'ext) outcome =
    Returned "error option" "('rp, 'ttl, 'ext) Volume" OS
  | Fatal fatal
  | Panic

text \<open>Modelled from the spec: the constant \<^verbatim>\<open>CurrentVersion\<close> is declared in another
  file of the package; it is "the latest known format version", here the parameter
  \<open>CurrentVersion\<close>.\<close>

definition maybeWriteSuperBlock ::
  "('rp, 'ttl, 'ext) codecs \<Rightarrow> byte \<Rightarrow> ('rp, 'ttl, 'ext) Volume \<Rightarrow> OS \<Rightarrow>
   ('rp, 'ttl, 'ext) outcome" where
  "maybeWriteSuperBlock c CurrentVersion v w =
     (case dataFile v of
        None \<Rightarrow> Panic
      | Some f \<Rightarrow>
          (case Stat f w of
             (Inl e, w1) \<Rightarrow> Returned (Some e) v w1
           | (Inr sz, w1) \<Rightarrow>
               if sz = 0
               then
                 let v1 = v\<lparr>SuperBlock := (SuperBlock v)\<lparr>version := CurrentVersion\<rparr>\<rparr>
                 in (case Bytes c (SuperBlock v1) of
                       Inl ft \<Rightarrow> Fatal ft
                     | Inr (b, s2) \<Rightarrow>
                         (case Write f b w1 of
                            (e, f2, w2) \<Rightarrow>
                              let v2 = v1\<lparr>SuperBlock := s2, dataFile := Some f2\<rparr>
                              in (case e of
                                    None \<Rightarrow> Returned None v2 w2
                                  | Some err \<Rightarrow>
                                      if IsPermission err
                                      then
                                        (case Create (Name f2) w2 of
                                           (Inl e3, w3) \<Rightarrow>
                                             Returned (Some e3) (v2\<lparr>dataFile := None\<rparr>) w3
                                         | (Inr f3, w3) \<Rightarrow>
                                             (case Bytes c (SuperBlock v2) of
                                                Inl ft \<Rightarrow> Fatal ft
                                              | Inr (b', s4) \<Rightarrow>
                                                  (case Write f3 b' w3 of
                                                     (e4, f4, w4) \<Rightarrow>
                                                       let v4 = v2\<lparr>SuperBlock := s4,
                                                                    dataFile := Some f4\<rparr>
                                                       in if e4 = None
                                                          then Returned e4 (v4\<lparr>readOnly := False\<rparr>) w4
                                                          else Returned e4 v4 w4)))
                                      else Returned (Some err) v2 w2)))
               else Returned None v w1))"

subsection \<open>Stand-ins for the codecs and sample inputs\<close>

text \<open>
  Modelled from the spec: the three value codecs are collaborators whose source is not at
  hand, so the functions above are run with stand-ins that meet the contracts the spec
  lists for them: a replica placement is its byte and some bytes are not recognised, a
  time to live is its two bytes, an extension message is its serialised bytes.
\<close>

definition test_codecs :: "byte_order \<Rightarrow> (byte, byte \<times> byte, byte list) codecs" where
  "test_codecs bo =
     \<lparr>order = bo,
      rp_Byte = (\<lambda>r. r),
      NewReplicaPlacementFromByte =
        (\<lambda>b. if b < 100 then Inr b else Inl (ErrCodec ''unknown replica placement'')),
      ttl_ToBytes = (\<lambda>t. t),
      LoadTTLFromBytes = (\<lambda>p. p),
      Marshal = (\<lambda>x. Inr x),
      Unmarshal = (\<lambda>d. Inr d)\<rparr>"

definition header_example :: "(byte, byte \<times> byte, byte list) SuperBlock" where
  "header_example =
     \<lparr>version = 2, ReplicaPlacement = 0, Ttl = (0, 0), CompactRevision = 5,
      Extra = None, extraSize = 0\<rparr>"

definition header_v1_with_extra :: "(byte, byte \<times> byte, byte list) SuperBlock" where
  "header_v1_with_extra =
     \<lparr>version = 1, ReplicaPlacement = 0, Ttl = (0, 0), CompactRevision = 0,
      Extra = Some [7], extraSize = 0\<rparr>"

definition header_stale_size :: "(byte, byte \<times> byte, byte list) SuperBlock" where
  "header_stale_size =
     \<lparr>version = 3, ReplicaPlacement = 0, Ttl = (0, 0), CompactRevision = 0,
      Extra = None, extraSize = 5\<rparr>"

definition header_with_extra :: "byte list \<Rightarrow> (byte, byte \<times> byte, byte list) SuperBlock" where
  "header_with_extra d =
     \<lparr>version = 3, ReplicaPlacement = 0, Ttl = (0, 0), CompactRevision = 0,
      Extra = Some d, extraSize = 0\<rparr>"

text \<open>A system with one file, a handle on it, and a volume that holds the handle.\<close>

definition one_file :: "string \<Rightarrow> byte list \<Rightarrow> error option list \<Rightarrow> OS" where
  "one_file name content script =
     \<lparr>disk = (\<lambda>n. if n = name then Some content else None), faults = script, trace = []\<rparr>"

definition dat :: File where
  "dat = \<lparr>Name = ''1.dat'', offset = 0\<rparr>"

definition new_volume :: "bool \<Rightarrow> (byte, byte \<times> byte, byte list) Volume" where
  "new_volume ro = \<lparr>dataFile = Some dat, SuperBlock = header_example, readOnly = ro\<rparr>"

section \<open>Facts about the codec of 16-bit fields\<close>

lemma split16:
  "push_bit 8 (ucast (ucast (drop_bit 8 v :: uint16) :: byte) :: uint16) + ucast (ucast v :: byte) = v"
proof -
  have "push_bit 8 (ucast (ucast (drop_bit 8 v :: uint16) :: byte) :: uint16)
          AND ucast (ucast v :: byte) = 0"
    by (auto simp: bit_eq_iff bit_simps)
  then have "push_bit 8 (ucast (ucast (drop_bit 8 v :: uint16) :: byte) :: uint16)
               + ucast (ucast v :: byte)
             = push_bit 8 (ucast (ucast (drop_bit 8 v :: uint16) :: byte) :: uint16)
               OR ucast (ucast v :: byte)"
    by (rule disjunctive_add_eq_or)
  also have "\<dots> = v"
    by (auto simp: bit_eq_iff bit_simps)
  finally show ?thesis .
qed

lemma BytesToUint16_Uint16toBytes: "BytesToUint16 bo (Uint16toBytes bo v) = v"
  by (cases bo) (simp_all add: split16)

lemma BytesToUint16_zero: "BytesToUint16 bo (0, 0) = 0"
  by (cases bo) simp_all

lemma Uint16toBytes_zero: "Uint16toBytes bo 0 = (0, 0)"
  by (cases bo) simp_all

lemma unat_extraSize: "n \<le> 65534 \<Longrightarrow> unat (of_nat n :: uint16) = n"
  by (simp add: of_nat_inverse)

section \<open>The paths of \<open>Bytes\<close>\<close>

lemma Bytes_None:
  "Extra s = None \<Longrightarrow>
   Bytes c s =
     Inr ([version s, rp_Byte c (ReplicaPlacement s),
           fst (ttl_ToBytes c (Ttl s)), snd (ttl_ToBytes c (Ttl s)),
           fst (Uint16toBytes (order c) (CompactRevision s)),
           snd (Uint16toBytes (order c) (CompactRevision s)), 0, 0], s)"
  by (simp add: Bytes_def Let_def)

lemma Bytes_Some:
  "Extra s = Some x \<Longrightarrow> Marshal c x = Inr d \<Longrightarrow> length d \<le> 65534 \<Longrightarrow>
   Bytes c s =
     Inr ([version s, rp_Byte c (ReplicaPlacement s),
           fst (ttl_ToBytes c (Ttl s)), snd (ttl_ToBytes c (Ttl s)),
           fst (Uint16toBytes (order c) (CompactRevision s)),
           snd (Uint16toBytes (order c) (CompactRevision s)),
           fst (Uint16toBytes (order c) (of_nat (length d))),
           snd (Uint16toBytes (order c) (of_nat (length d)))] @ d,
          s\<lparr>extraSize := of_nat (length d)\<rparr>)"
  by (simp add: Bytes_def Let_def)

lemma Bytes_too_big:
  "Extra s = Some x \<Longrightarrow> Marshal c x = Inr d \<Longrightarrow> 65534 < length d \<Longrightarrow>
   Bytes c s = Inl (FatalExtraSize (length d))"
  by (simp add: Bytes_def Let_def)

lemma Bytes_marshal_fails:
  "Extra s = Some x \<Longrightarrow> Marshal c x = Inl e \<Longrightarrow> Bytes c s = Inl (FatalMarshal e)"
  by (simp add: Bytes_def Let_def)

lemma Bytes_cases:
  assumes "Bytes c s = Inr (b, s')"
  obtains (absent) "Extra s = None" "s' = s"
    | (present) x d where "Extra s = Some x" "Marshal c x = Inr d" "length d \<le> 65534"
        "s' = s\<lparr>extraSize := of_nat (length d)\<rparr>"
  using assms by (auto simp: Bytes_def Let_def split: option.splits sum.splits if_splits)

lemma Bytes_again:
  assumes "Bytes c s = Inr (b, s')"
  shows "Bytes c s' = Inr (b, s')"
  using assms
proof (cases rule: Bytes_cases)
  case absent
  with assms show ?thesis by simp
next
  case (present x d)
  with assms show ?thesis by (simp add: Bytes_Some)
qed

lemma Bytes_version:
  assumes "Bytes c s = Inr (b, s')"
  shows "version s' = version s"
  using assms by (cases rule: Bytes_cases) simp_all

section \<open>The effect of the system calls\<close>

lemma enter_effect:
  assumes "enter call w = (x, w')"
  shows "disk w' = disk w" and "trace w' = trace w @ [call]"
  using assms by (auto simp: enter_def split: list.splits)

lemma Stat_effect:
  assumes "Stat f w = (r, w')"
  shows "disk w' = disk w" and "trace w' = trace w @ [SysStat (Name f)]"
proof -
  obtain x w0 where e: "enter (SysStat (Name f)) w = (x, w0)"
    by (cases "enter (SysStat (Name f)) w")
  with assms have "w' = w0"
    by (simp add: Stat_def split: option.splits)
  with enter_effect [OF e] show "disk w' = disk w" and "trace w' = trace w @ [SysStat (Name f)]"
    by simp_all
qed

lemma Write_effect:
  assumes "Write f b w = (e, f', w')"
  shows "trace w' = trace w @ [SysWrite (Name f) b]" and "Name f' = Name f"
proof -
  obtain x w0 where e: "enter (SysWrite (Name f) b) w = (x, w0)"
    by (cases "enter (SysWrite (Name f) b) w")
  with assms have "trace w' = trace w0 \<and> Name f' = Name f"
    by (auto simp: Write_def Let_def split: option.splits)
  with enter_effect(2) [OF e]
  show "trace w' = trace w @ [SysWrite (Name f) b]" and "Name f' = Name f"
    by simp_all
qed

lemma Create_effect:
  assumes "Create n w = (r, w')"
  shows "trace w' = trace w @ [SysCreate n]"
proof -
  obtain x w0 where e: "enter (SysCreate n) w = (x, w0)"
    by (cases "enter (SysCreate n) w")
  with assms have "trace w' = trace w0"
    by (auto simp: Create_def split: option.splits)
  with enter_effect(2) [OF e] show ?thesis by simp
qed

lemma Create_Name:
  assumes "Create n w = (Inr f, w')"
  shows "Name f = n"
  using assms
  by (cases "enter (SysCreate n) w") (auto simp: Create_def split: option.splits)

lemma Bytes_first:
  assumes "Bytes c s = Inr (b, s')"
  shows "b ! 0 = version s"
  using assms
proof (cases rule: Bytes_cases)
  case absent
  with assms show ?thesis by (auto simp: Bytes_None)
next
  case (present x d)
  with assms show ?thesis by (auto simp: Bytes_Some)
qed

lemma Stat_one_file:
  "Stat dat (one_file ''1.dat'' content (None # script)) =
     (Inr (length content), (one_file ''1.dat'' content script)\<lparr>trace := [SysStat ''1.dat'']\<rparr>)"
  by (simp add: Stat_def enter_def one_file_def dat_def)

lemma Create_fails:
  "faults w = Some e # sc \<Longrightarrow>
   Create n w = (Inl e, w\<lparr>faults := sc, trace := trace w @ [SysCreate n]\<rparr>)"
  by (simp add: Create_def enter_def)

lemma Create_ok:
  "faults w = None # sc \<Longrightarrow>
   Create n w =
     (Inr \<lparr>Name = n, offset = 0\<rparr>,
      w\<lparr>faults := sc, trace := trace w @ [SysCreate n], disk := (disk w)(n \<mapsto> [])\<rparr>)"
  by (simp add: Create_def enter_def)

lemma Bytes_new_volume:
  "Bytes (test_codecs BigEndian) ((SuperBlock (new_volume ro))\<lparr>version := 3\<rparr>) =
     Inr ([3, 0, 0, 0, 0, 5, 0, 0], header_example\<lparr>version := 3\<rparr>)"
  by (simp add: new_volume_def header_example_def Bytes_def test_codecs_def Let_def)

section \<open>The encoder\<close>

text \<open>
  C3, as the code has it. \<open>Bytes\<close> never looks at the version: the encoded header is 8
  bytes long when there is no extension and 8 plus the length of the marshalled
  extension when there is one, for version 1 as for any other. It is \<open>BlockSize\<close> that
  depends on the version: after the call it is 8 for every version other than 2 and 3,
  and for versions 2 and 3 with an extension it is the length of the encoded header.
\<close>

theorem C3_encoded_length:
  assumes "Bytes c s = Inr (b, s')"
  shows "(Extra s = None \<longrightarrow> length b = 8) \<and>
         (\<forall>x d. Extra s = Some x \<and> Marshal c x = Inr d \<longrightarrow> length b = 8 + length d) \<and>
         (version s \<noteq> Version2 \<and> version s \<noteq> Version3 \<longrightarrow> BlockSize s' = 8) \<and>
         ((version s = Version2 \<or> version s = Version3) \<and> Extra s \<noteq> None \<longrightarrow>
            BlockSize s' = length b)"
  using assms
proof (cases rule: Bytes_cases)
  case absent
  with assms show ?thesis
    by (auto simp: Bytes_None BlockSize_def SuperBlockSize_def)
next
  case (present x d)
  with assms show ?thesis
    by (auto simp: Bytes_Some BlockSize_def SuperBlockSize_def unat_extraSize)
qed

theorem C3_encoded_length_witness:
  "Bytes (test_codecs BigEndian) (header_with_extra [7, 7]) =
     Inr ([3, 0, 0, 0, 0, 0, 0, 2, 7, 7], (header_with_extra [7, 7])\<lparr>extraSize := 2\<rparr>) \<and>
   length [3, 0, 0, 0, 0, 0, 0, 2, 7, 7 :: byte] = 8 + length [7, 7 :: byte] \<and>
   BlockSize ((header_with_extra [7, 7])\<lparr>extraSize := 2\<rparr>) = 10"
proof -
  have b: "Bytes (test_codecs BigEndian) (header_with_extra [7, 7]) =
     Inr ([3, 0, 0, 0, 0, 0, 0, 2, 7, 7], (header_with_extra [7, 7])\<lparr>extraSize := 2\<rparr>)"
    by (simp add: header_with_extra_def Bytes_def test_codecs_def Let_def)
  from C3_encoded_length [OF b] show ?thesis
    using b by (simp add: header_with_extra_def test_codecs_def Version3_def)
qed

text \<open>
  C3 as stated fails: a version 1 header with a one-byte extension is encoded in 9
  bytes, not 8.
\<close>

theorem C3_counterexample:
  "version header_v1_with_extra = Version1 \<and>
   Bytes (test_codecs BigEndian) header_v1_with_extra =
     Inr ([1, 0, 0, 0, 0, 0, 0, 1, 7], header_v1_with_extra\<lparr>extraSize := 1\<rparr>) \<and>
   length [1, 0, 0, 0, 0, 0, 0, 1, 7 :: byte] \<noteq> 8"
  by (simp add: header_v1_with_extra_def Version1_def Bytes_def test_codecs_def Let_def)

text \<open>
  C4: in every encoded header byte 0 is the version, byte 1 the byte of the replica
  placement, bytes 2 and 3 the two bytes of the time to live, bytes 4 and 5 the compact
  revision as a 16-bit field. Without an extension bytes 6 and 7 are zero and nothing
  follows them. With an extension that marshals to the bytes \<open>d\<close>, bytes 6 and 7 are the
  length of \<open>d\<close> as a 16-bit field, that length is the cached length after the call, and
  \<open>d\<close> follows the fixed region. The header of version 2 with replica placement byte 0,
  time to live bytes 0 and 0, compact revision 5 and no extension is encoded as
  2, 0, 0, 0, the two bytes of 5, 0, 0.
\<close>

theorem C4_fixed_region_layout:
  assumes "Bytes c s = Inr (b, s')"
  shows "8 \<le> length b \<and>
         take 6 b =
           [version s, rp_Byte c (ReplicaPlacement s),
            fst (ttl_ToBytes c (Ttl s)), snd (ttl_ToBytes c (Ttl s)),
            fst (Uint16toBytes (order c) (CompactRevision s)),
            snd (Uint16toBytes (order c) (CompactRevision s))] \<and>
         (Extra s = None \<longrightarrow> b ! 6 = 0 \<and> b ! 7 = 0 \<and> length b = 8) \<and>
         (\<forall>x d. Extra s = Some x \<and> Marshal c x = Inr d \<longrightarrow>
            (b ! 6, b ! 7) = Uint16toBytes (order c) (of_nat (length d)) \<and>
            BytesToUint16 (order c) (b ! 6, b ! 7) = of_nat (length d) \<and>
            extraSize s' = of_nat (length d) \<and>
            unat (extraSize s') = length d \<and>
            drop 8 b = d) \<and>
         (version s = 2 \<and> rp_Byte c (ReplicaPlacement s) = 0 \<and> ttl_ToBytes c (Ttl s) = (0, 0) \<and>
          CompactRevision s = 5 \<and> Extra s = None \<longrightarrow>
            b = [2, 0, 0, 0, fst (Uint16toBytes (order c) 5), snd (Uint16toBytes (order c) 5), 0, 0])"
  using assms
proof (cases rule: Bytes_cases)
  case absent
  with assms show ?thesis
    by (auto simp: Bytes_None)
next
  case (present x d)
  with assms show ?thesis
    by (auto simp: Bytes_Some unat_extraSize BytesToUint16_Uint16toBytes
        simp flip: surjective_pairing)
qed

theorem C4_fixed_region_layout_witness:
  "Bytes (test_codecs BigEndian) header_example = Inr ([2, 0, 0, 0, 0, 5, 0, 0], header_example) \<and>
   Bytes (test_codecs BigEndian) (header_with_extra [1, 2, 3, 4, 5]) =
     Inr ([3, 0, 0, 0, 0, 0, 0, 5, 1, 2, 3, 4, 5],
          (header_with_extra [1, 2, 3, 4, 5])\<lparr>extraSize := 5\<rparr>) \<and>
   ([3, 0, 0, 0, 0, 0, 0, 5, 1, 2, 3, 4, 5] ! 6, [3, 0, 0, 0, 0, 0, 0, 5, 1, 2, 3, 4, 5 :: byte] ! 7) =
     Uint16toBytes BigEndian (of_nat (length [1, 2, 3, 4, 5 :: byte]))"
proof -
  have b: "Bytes (test_codecs BigEndian) header_example =
             Inr ([2, 0, 0, 0, 0, 5, 0, 0], header_example)"
    by (simp add: header_example_def Bytes_def test_codecs_def Let_def)
  have b': "Bytes (test_codecs BigEndian) (header_with_extra [1, 2, 3, 4, 5]) =
     Inr ([3, 0, 0, 0, 0, 0, 0, 5, 1, 2, 3, 4, 5],
          (header_with_extra [1, 2, 3, 4, 5])\<lparr>extraSize := 5\<rparr>)"
    by (simp add: header_with_extra_def Bytes_def test_codecs_def Let_def)
  have m: "Extra (header_with_extra [1, 2, 3, 4, 5]) = Some [1, 2, 3, 4, 5] \<and>
           Marshal (test_codecs BigEndian) [1, 2, 3, 4, 5] = Inr [1, 2, 3, 4, 5]"
    by (simp add: header_with_extra_def test_codecs_def)
  have o: "order (test_codecs BigEndian) = BigEndian"
    by (simp add: test_codecs_def)
  from C4_fixed_region_layout [OF b]
    C4_fixed_region_layout [OF b', THEN conjunct2, THEN conjunct2, THEN conjunct2,
      THEN conjunct1, rule_format, OF m]
  show ?thesis
    using b b' o by simp
qed

text \<open>
  C5: a header whose extension marshals to exactly 65534 bytes is encoded, all of the
  extension behind the fixed region; one whose extension marshals to more ends in the
  fatal exit for the size, which is not the exit for a failed marshal, and no bytes are
  returned.
\<close>

theorem C5_oversize_boundary:
  assumes "Extra s = Some x" and "Marshal c x = Inr d"
  shows "(length d = 65534 \<longrightarrow>
            (\<exists>b s'. Bytes c s = Inr (b, s') \<and> drop 8 b = d \<and> length b = 8 + 65534 \<and>
                    unat (extraSize s') = 65534)) \<and>
         (65534 < length d \<longrightarrow>
            Bytes c s = Inl (FatalExtraSize (length d)) \<and>
            (\<forall>e. Bytes c s \<noteq> Inl (FatalMarshal e)) \<and>
            (\<forall>b s'. Bytes c s \<noteq> Inr (b, s')))"
proof (intro conjI impI)
  assume len: "length d = 65534"
  then have "length d \<le> 65534" by simp
  from Bytes_Some [OF assms this] len
  show "\<exists>b s'. Bytes c s = Inr (b, s') \<and> drop 8 b = d \<and> length b = 8 + 65534 \<and>
                unat (extraSize s') = 65534"
    by (simp add: unat_extraSize)
next
  assume "65534 < length d"
  from Bytes_too_big [OF assms this]
  show "Bytes c s = Inl (FatalExtraSize (length d))" .
  then show "\<forall>e. Bytes c s \<noteq> Inl (FatalMarshal e)" by simp
  from \<open>Bytes c s = Inl (FatalExtraSize (length d))\<close>
  show "\<forall>b s'. Bytes c s \<noteq> Inr (b, s')" by simp
qed

theorem C5_oversize_boundary_witness:
  "(\<exists>b s'. Bytes (test_codecs BigEndian) (header_with_extra (replicate 65534 0)) = Inr (b, s') \<and>
           drop 8 b = replicate 65534 0 \<and> length b = 8 + 65534 \<and> unat (extraSize s') = 65534) \<and>
   Bytes (test_codecs BigEndian) (header_with_extra (replicate 65535 0)) = Inl (FatalExtraSize 65535) \<and>
   Bytes (test_codecs BigEndian) (header_with_extra (replicate 65536 0)) = Inl (FatalExtraSize 65536)"
proof -
  have e: "Extra (header_with_extra d) = Some d" for d
    by (simp add: header_with_extra_def)
  have m: "Marshal (test_codecs BigEndian) d = Inr d" for d
    by (simp add: test_codecs_def)
  show ?thesis
    using C5_oversize_boundary [OF e m, of "replicate 65534 0"]
      C5_oversize_boundary [OF e m, of "replicate 65535 0"]
      C5_oversize_boundary [OF e m, of "replicate 65536 0"]
    by simp
qed

text \<open>
  C6, as the code has it. The cached length is assigned only under the test that the
  extension is present. With an extension, whatever the cache held before the call, it
  is afterwards the length of the marshalled bytes that follow the fixed region, and
  bytes 6 and 7 encode it. Without an extension, bytes 6 and 7 are zero, no extension is
  written, and the cache keeps the value it had.
\<close>

theorem C6_cached_length:
  assumes "Bytes c s = Inr (b, s')"
  shows "(\<forall>x. Extra s = Some x \<longrightarrow>
            Marshal c x = Inr (drop 8 b) \<and>
            unat (extraSize s') = length (drop 8 b) \<and>
            (b ! 6, b ! 7) = Uint16toBytes (order c) (extraSize s') \<and>
            BytesToUint16 (order c) (b ! 6, b ! 7) = extraSize s') \<and>
         (Extra s = None \<longrightarrow>
            length b = 8 \<and> b ! 6 = 0 \<and> b ! 7 = 0 \<and> extraSize s' = extraSize s)"
  using assms
proof (cases rule: Bytes_cases)
  case absent
  with assms show ?thesis
    by (auto simp: Bytes_None)
next
  case (present x d)
  with assms show ?thesis
    by (auto simp: Bytes_Some unat_extraSize BytesToUint16_Uint16toBytes
        simp flip: surjective_pairing)
qed

theorem C6_cached_length_witness:
  "Bytes (test_codecs BigEndian) ((header_with_extra [7, 7])\<lparr>extraSize := 9\<rparr>) =
     Inr ([3, 0, 0, 0, 0, 0, 0, 2, 7, 7], (header_with_extra [7, 7])\<lparr>extraSize := 2\<rparr>) \<and>
   unat (extraSize ((header_with_extra [7, 7])\<lparr>extraSize := 2\<rparr>)) = length [7, 7 :: byte]"
proof -
  have b: "Bytes (test_codecs BigEndian) ((header_with_extra [7, 7])\<lparr>extraSize := 9\<rparr>) =
     Inr ([3, 0, 0, 0, 0, 0, 0, 2, 7, 7], (header_with_extra [7, 7])\<lparr>extraSize := 2\<rparr>)"
    by (simp add: header_with_extra_def Bytes_def test_codecs_def Let_def)
  from C6_cached_length [OF b] show ?thesis
    using b by (simp add: header_with_extra_def)
qed

text \<open>
  C6 as stated fails. Encoding a header with a 5-byte extension sets its cached length
  to 5. Once the extension of that header is removed, the header is encoded in 8 bytes
  with a zero length field, and its cached length is still 5 after the call, so that
  \<open>BlockSize\<close> answers 13.
\<close>

theorem C6_counterexample:
  "Bytes (test_codecs BigEndian) (header_with_extra [1, 2, 3, 4, 5]) =
     Inr ([3, 0, 0, 0, 0, 0, 0, 5, 1, 2, 3, 4, 5],
          (header_with_extra [1, 2, 3, 4, 5])\<lparr>extraSize := 5\<rparr>) \<and>
   header_stale_size = (header_with_extra [1, 2, 3, 4, 5])\<lparr>extraSize := 5, Extra := None\<rparr> \<and>
   Bytes (test_codecs BigEndian) header_stale_size =
     Inr ([3, 0, 0, 0, 0, 0, 0, 0], header_stale_size) \<and>
   extraSize header_stale_size = 5 \<and>
   BlockSize header_stale_size = 13"
  by (simp add: header_stale_size_def header_with_extra_def Bytes_def test_codecs_def Let_def
      BlockSize_def Version2_def Version3_def SuperBlockSize_def)

section \<open>Writing the super block of a new volume\<close>

text \<open>
  C8: when the size query answers a size above zero, the call returns nil with the
  volume as it was, the content of every file is what it was, and the size query is the
  only call made (no write); when the size query fails, its error is returned, and again
  the query is the only call made.
\<close>

theorem C8_existing_file_untouched:
  assumes "dataFile v = Some f"
  shows "(\<forall>n w1. Stat f w = (Inr n, w1) \<and> 0 < n \<longrightarrow>
            maybeWriteSuperBlock c cv v w = Returned None v w1 \<and>
            disk w1 = disk w \<and> trace w1 = trace w @ [SysStat (Name f)]) \<and>
         (\<forall>e w1. Stat f w = (Inl e, w1) \<longrightarrow>
            maybeWriteSuperBlock c cv v w = Returned (Some e) v w1 \<and>
            disk w1 = disk w \<and> trace w1 = trace w @ [SysStat (Name f)])"
proof (intro conjI allI impI)
  fix n w1
  assume a: "Stat f w = (Inr n, w1) \<and> 0 < n"
  with assms show "maybeWriteSuperBlock c cv v w = Returned None v w1"
    by (simp add: maybeWriteSuperBlock_def)
  from a Stat_effect [of f w "Inr n" w1]
  show "disk w1 = disk w" and "trace w1 = trace w @ [SysStat (Name f)]"
    by simp_all
next
  fix e w1
  assume a: "Stat f w = (Inl e, w1)"
  with assms show "maybeWriteSuperBlock c cv v w = Returned (Some e) v w1"
    by (simp add: maybeWriteSuperBlock_def)
  from a Stat_effect [of f w "Inl e" w1]
  show "disk w1 = disk w" and "trace w1 = trace w @ [SysStat (Name f)]"
    by simp_all
qed

theorem C8_existing_file_untouched_witness:
  "maybeWriteSuperBlock (test_codecs BigEndian) 3 (new_volume True) (one_file ''1.dat'' [9, 9] []) =
     Returned None (new_volume True) ((one_file ''1.dat'' [9, 9] [])\<lparr>trace := [SysStat ''1.dat'']\<rparr>) \<and>
   maybeWriteSuperBlock (test_codecs BigEndian) 3 (new_volume True)
       (one_file ''1.dat'' [9, 9] [Some (ErrOS ''input/output error'')]) =
     Returned (Some (ErrOS ''input/output error'')) (new_volume True)
       ((one_file ''1.dat'' [9, 9] [])\<lparr>trace := [SysStat ''1.dat'']\<rparr>)"
proof -
  have d: "dataFile (new_volume True) = Some dat"
    by (simp add: new_volume_def)
  have s1: "Stat dat (one_file ''1.dat'' [9, 9] []) =
              (Inr 2, (one_file ''1.dat'' [9, 9] [])\<lparr>trace := [SysStat ''1.dat'']\<rparr>) \<and> (0::nat) < 2"
    by (simp add: Stat_def enter_def one_file_def dat_def)
  have s2: "Stat dat (one_file ''1.dat'' [9, 9] [Some (ErrOS ''input/output error'')]) =
              (Inl (ErrOS ''input/output error''),
               (one_file ''1.dat'' [9, 9] [])\<lparr>trace := [SysStat ''1.dat'']\<rparr>)"
    by (simp add: Stat_def enter_def one_file_def dat_def)
  from C8_existing_file_untouched [OF d, THEN conjunct1, rule_format, OF s1]
       C8_existing_file_untouched [OF d, THEN conjunct2, rule_format, OF s2]
  show ?thesis by blast
qed

text \<open>
  The call on an empty file, one branch for each way the first write can end. The second
  call of \<open>Bytes\<close> returns what the first returned.
\<close>

lemma maybeWriteSuperBlock_empty:
  assumes "dataFile v = Some f" and "Stat f w = (Inr 0, w1)"
    and "Bytes c ((SuperBlock v)\<lparr>version := cv\<rparr>) = Inr (b, s2)"
    and "Write f b w1 = (e, f2, w2)"
  shows "maybeWriteSuperBlock c cv v w =
     (case e of
        None \<Rightarrow> Returned None (v\<lparr>SuperBlock := s2, dataFile := Some f2\<rparr>) w2
      | Some err \<Rightarrow>
          if IsPermission err
          then (case Create (Name f) w2 of
                  (Inl e3, w3) \<Rightarrow> Returned (Some e3) (v\<lparr>SuperBlock := s2, dataFile := None\<rparr>) w3
                | (Inr f3, w3) \<Rightarrow>
                    (case Write f3 b w3 of
                       (e4, f4, w4) \<Rightarrow>
                         Returned e4
                           (v\<lparr>SuperBlock := s2, dataFile := Some f4,
                              readOnly := (if e4 = None then False else readOnly v)\<rparr>) w4))
          else Returned (Some err) (v\<lparr>SuperBlock := s2, dataFile := Some f2\<rparr>) w2)"
proof -
  have n: "Name f2 = Name f"
    using Write_effect(2) [OF assms(4)] .
  have again: "Bytes c s2 = Inr (b, s2)"
    using Bytes_again [OF assms(3)] .
  show ?thesis
    using assms n again
    by (simp add: maybeWriteSuperBlock_def Let_def split: option.split prod.split sum.split)
qed

text \<open>
  C7: let the size query answer 0 and the first write fail with an error on which
  \<^verbatim>\<open>os.IsPermission\<close> holds. Then \<^verbatim>\<open>os.Create\<close> is called on the name of the data
  file. If it fails, its error is returned, the read-only flag is what it was, and the
  calls made are the size query, the write and the create. If it succeeds, the same bytes
  are written once more to the new handle, which has the same name, and no further call
  follows; the result of that write is returned, and the read-only flag is false if it
  is nil and what it was otherwise.
\<close>

theorem C7_permission_recovery:
  assumes "dataFile v = Some f" and "Stat f w = (Inr 0, w1)"
    and "Bytes c ((SuperBlock v)\<lparr>version := cv\<rparr>) = Inr (b, s2)"
    and "Write f b w1 = (Some err, f2, w2)" and "IsPermission err"
  shows "(\<forall>e3 w3. Create (Name f) w2 = (Inl e3, w3) \<longrightarrow>
            (\<exists>v'. maybeWriteSuperBlock c cv v w = Returned (Some e3) v' w3 \<and>
                  readOnly v' = readOnly v) \<and>
            trace w3 = trace w @ [SysStat (Name f), SysWrite (Name f) b, SysCreate (Name f)]) \<and>
         (\<forall>f3 w3 e4 f4 w4. Create (Name f) w2 = (Inr f3, w3) \<and> Write f3 b w3 = (e4, f4, w4) \<longrightarrow>
            (\<exists>v'. maybeWriteSuperBlock c cv v w = Returned e4 v' w4 \<and>
                  readOnly v' = (if e4 = None then False else readOnly v) \<and>
                  dataFile v' = Some f4) \<and>
            Name f3 = Name f \<and>
            trace w4 = trace w @ [SysStat (Name f), SysWrite (Name f) b, SysCreate (Name f),
                                  SysWrite (Name f) b])"
proof (intro conjI allI impI)
  note unfolded = maybeWriteSuperBlock_empty [OF assms(1-4)]
  have t2: "trace w2 = trace w @ [SysStat (Name f), SysWrite (Name f) b]"
    using Stat_effect(2) [OF assms(2)] Write_effect(1) [OF assms(4)] by simp
  {
    fix e3 w3
    assume cr: "Create (Name f) w2 = (Inl e3, w3)"
    from unfolded cr assms(5)
    show "\<exists>v'. maybeWriteSuperBlock c cv v w = Returned (Some e3) v' w3 \<and>
               readOnly v' = readOnly v"
      by simp
    from Create_effect [OF cr] t2
    show "trace w3 = trace w @ [SysStat (Name f), SysWrite (Name f) b, SysCreate (Name f)]"
      by simp
  next
    fix f3 w3 e4 f4 w4
    assume a: "Create (Name f) w2 = (Inr f3, w3) \<and> Write f3 b w3 = (e4, f4, w4)"
    then have cr: "Create (Name f) w2 = (Inr f3, w3)" and wr: "Write f3 b w3 = (e4, f4, w4)"
      by simp_all
    from unfolded cr wr assms(5)
    show "\<exists>v'. maybeWriteSuperBlock c cv v w = Returned e4 v' w4 \<and>
               readOnly v' = (if e4 = None then False else readOnly v) \<and>
               dataFile v' = Some f4"
      by simp
    show n: "Name f3 = Name f"
      using Create_Name [OF cr] .
    from Create_effect [OF cr] Write_effect(1) [OF wr] t2 n
    show "trace w4 = trace w @ [SysStat (Name f), SysWrite (Name f) b, SysCreate (Name f),
                                SysWrite (Name f) b]"
      by simp
  }
qed

theorem C7_permission_recovery_witness:
  "(\<exists>v' w'. maybeWriteSuperBlock (test_codecs BigEndian) 3 (new_volume True)
              (one_file ''1.dat'' [] [None, Some ErrPermission, None, None]) =
            Returned None v' w' \<and> readOnly v' = False \<and>
            trace w' = [SysStat ''1.dat'', SysWrite ''1.dat'' [3, 0, 0, 0, 0, 5, 0, 0],
                        SysCreate ''1.dat'', SysWrite ''1.dat'' [3, 0, 0, 0, 0, 5, 0, 0]]) \<and>
   (\<exists>v' w'. maybeWriteSuperBlock (test_codecs BigEndian) 3 (new_volume True)
              (one_file ''1.dat'' [] [None, Some ErrPermission, None, Some (ErrOS ''input/output error'')]) =
            Returned (Some (ErrOS ''input/output error'')) v' w' \<and> readOnly v' = True \<and>
            trace w' = [SysStat ''1.dat'', SysWrite ''1.dat'' [3, 0, 0, 0, 0, 5, 0, 0],
                        SysCreate ''1.dat'', SysWrite ''1.dat'' [3, 0, 0, 0, 0, 5, 0, 0]]) \<and>
   (\<exists>v' w'. maybeWriteSuperBlock (test_codecs BigEndian) 3 (new_volume True)
              (one_file ''1.dat'' [] [None, Some ErrPermission, Some ErrPermission]) =
            Returned (Some ErrPermission) v' w' \<and> readOnly v' = True \<and>
            trace w' = [SysStat ''1.dat'', SysWrite ''1.dat'' [3, 0, 0, 0, 0, 5, 0, 0],
                        SysCreate ''1.dat''])"
proof -
  let ?b = "[3, 0, 0, 0, 0, 5, 0, 0] :: byte list"
  have d: "dataFile (new_volume True) = Some dat"
    by (simp add: new_volume_def)
  have n: "Name dat = ''1.dat''"
    by (simp add: dat_def)
  have start: "\<exists>w1 w2.
      Stat dat (one_file ''1.dat'' [] (None # Some ErrPermission # sc)) = (Inr 0, w1) \<and>
      Write dat ?b w1 = (Some ErrPermission, dat, w2) \<and>
      faults w2 = sc \<and> disk w2 ''1.dat'' = Some [] \<and>
      trace (one_file ''1.dat'' [] (None # Some ErrPermission # sc)) = []" for sc
    by (simp add: Stat_def Write_def enter_def one_file_def dat_def)
  have p: "IsPermission ErrPermission"
    by simp
  have A: "\<exists>v' w'. maybeWriteSuperBlock (test_codecs BigEndian) 3 (new_volume True)
              (one_file ''1.dat'' [] [None, Some ErrPermission, None, e]) =
            Returned e v' w' \<and> readOnly v' = (if e = None then False else True) \<and>
            trace w' = [SysStat ''1.dat'', SysWrite ''1.dat'' ?b, SysCreate ''1.dat'',
                        SysWrite ''1.dat'' ?b]" for e
  proof -
    from start [of "[None, e]"] obtain w1 w2 where
      st: "Stat dat (one_file ''1.dat'' [] [None, Some ErrPermission, None, e]) = (Inr 0, w1)" and
      wr: "Write dat ?b w1 = (Some ErrPermission, dat, w2)" and
      f2: "faults w2 = [None, e]" and d2: "disk w2 ''1.dat'' = Some []" and
      t0: "trace (one_file ''1.dat'' [] [None, Some ErrPermission, None, e]) = []"
      by blast
    obtain f3 w3 where cr: "Create (Name dat) w2 = (Inr f3, w3)" and
      f3: "faults w3 = [e]" and d3: "disk w3 ''1.dat'' = Some []" and n3: "f3 = dat"
      using Create_ok [OF f2, of "''1.dat''"] n by (simp add: dat_def)
    obtain f4 w4 where wr2: "Write f3 ?b w3 = (e, f4, w4)"
      using f3 d3 n3 by (cases e) (simp_all add: Write_def enter_def dat_def Let_def)
    from C7_permission_recovery [OF d st Bytes_new_volume wr p, THEN conjunct2, rule_format,
        of f3 w3 e f4 w4] cr wr2 t0 n
    show ?thesis
      by (auto simp: new_volume_def)
  qed
  have B: "\<exists>v' w'. maybeWriteSuperBlock (test_codecs BigEndian) 3 (new_volume True)
              (one_file ''1.dat'' [] [None, Some ErrPermission, Some ErrPermission]) =
            Returned (Some ErrPermission) v' w' \<and> readOnly v' = True \<and>
            trace w' = [SysStat ''1.dat'', SysWrite ''1.dat'' ?b, SysCreate ''1.dat'']"
  proof -
    from start [of "[Some ErrPermission]"] obtain w1 w2 where
      st: "Stat dat (one_file ''1.dat'' [] [None, Some ErrPermission, Some ErrPermission]) = (Inr 0, w1)" and
      wr: "Write dat ?b w1 = (Some ErrPermission, dat, w2)" and
      f2: "faults w2 = [Some ErrPermission]" and
      t0: "trace (one_file ''1.dat'' [] [None, Some ErrPermission, Some ErrPermission]) = []"
      by blast
    note cr = Create_fails [OF f2, of "Name dat"]
    from C7_permission_recovery [OF d st Bytes_new_volume wr p, THEN conjunct1, rule_format, OF cr]
      t0 n
    show ?thesis
      by (auto simp: new_volume_def)
  qed
  from A [of None] A [of "Some (ErrOS ''input/output error'')"] B
  show ?thesis by simp
qed

text \<open>
  C10: whenever the size query answers 0 and the call returns, with nil or with any
  error of the write, the create or the second write, the version of the volume's super
  block is the current version; and the first write, made right after the size query,
  already carries that version in its first byte.
\<close>

theorem C10_version_overwritten:
  assumes "dataFile v = Some f" and "Stat f w = (Inr 0, w1)"
    and "maybeWriteSuperBlock c cv v w = Returned r v' w'"
  shows "version (SuperBlock v') = cv \<and>
         (\<exists>b rest. trace w' = trace w @ SysStat (Name f) # SysWrite (Name f) b # rest \<and> b ! 0 = cv)"
proof (cases "Bytes c ((SuperBlock v)\<lparr>version := cv\<rparr>)")
  case (Inl ft)
  with assms(1,2) have "maybeWriteSuperBlock c cv v w = Fatal ft"
    by (simp add: maybeWriteSuperBlock_def)
  with assms(3) show ?thesis by simp
next
  case (Inr p)
  then obtain b s2 where b: "Bytes c ((SuperBlock v)\<lparr>version := cv\<rparr>) = Inr (b, s2)"
    by (cases p) simp
  have s2: "version s2 = cv"
    using Bytes_version [OF b] by simp
  have b0: "b ! 0 = cv"
    using Bytes_first [OF b] by simp
  obtain e f2 w2 where wr: "Write f b w1 = (e, f2, w2)"
    by (cases "Write f b w1")
  have t2: "trace w2 = trace w @ [SysStat (Name f), SysWrite (Name f) b]"
    using Stat_effect(2) [OF assms(2)] Write_effect(1) [OF wr] by simp
  note unfolded = maybeWriteSuperBlock_empty [OF assms(1,2) b wr]
  have v: "version (SuperBlock v') = cv"
    using unfolded assms(3) s2
    by (auto split: option.splits if_splits prod.splits sum.splits)
  have "\<exists>rest. trace w' = trace w2 @ rest"
  proof (cases "\<exists>err. e = Some err \<and> IsPermission err")
    case False
    with unfolded assms(3) have "w' = w2"
      by (auto split: option.splits if_splits)
    then show ?thesis by simp
  next
    case True
    obtain r3 w3 where cr: "Create (Name f) w2 = (r3, w3)"
      by (cases "Create (Name f) w2")
    show ?thesis
    proof (cases r3)
      case (Inl e3)
      with True unfolded assms(3) cr have "w' = w3" by auto
      with Create_effect [OF cr] show ?thesis by simp
    next
      case (Inr f3)
      obtain e4 f4 w4 where wr2: "Write f3 b w3 = (e4, f4, w4)"
        by (cases "Write f3 b w3")
      with Inr True unfolded assms(3) cr have "w' = w4" by auto
      with Create_effect [OF cr] Write_effect(1) [OF wr2] show ?thesis by simp
    qed
  qed
  with t2 b0 v show ?thesis by auto
qed

theorem C10_version_overwritten_witness:
  "version (SuperBlock (new_volume True)) = 2 \<and>
   (\<exists>v' w'. maybeWriteSuperBlock (test_codecs BigEndian) 3 (new_volume True)
              (one_file ''1.dat'' [] [None, Some (ErrOS ''no space left on device'')]) =
            Returned (Some (ErrOS ''no space left on device'')) v' w' \<and>
            version (SuperBlock v') = 3)"
proof -
  let ?w = "one_file ''1.dat'' [] [None, Some (ErrOS ''no space left on device'')]"
  let ?w1 = "(one_file ''1.dat'' [] [Some (ErrOS ''no space left on device'')])\<lparr>trace := [SysStat ''1.dat'']\<rparr>"
  have d: "dataFile (new_volume True) = Some dat"
    by (simp add: new_volume_def)
  have st: "Stat dat ?w = (Inr 0, ?w1)"
    using Stat_one_file [of "[]"] by simp
  obtain v' w' where r: "maybeWriteSuperBlock (test_codecs BigEndian) 3 (new_volume True) ?w =
      Returned (Some (ErrOS ''no space left on device'')) v' w'"
    using d st Bytes_new_volume [of True]
    by (simp add: maybeWriteSuperBlock_def Write_def enter_def one_file_def Let_def)
  from C10_version_overwritten [OF d st r] r show ?thesis
    by (auto simp: new_volume_def header_example_def)
qed

section \<open>The decoder\<close>

text \<open>What \<open>ReadSuperBlock\<close> returns for a file of exactly 8 bytes with a zero length field.\<close>

lemma ReadSuperBlock_fixed:
  assumes "faults w = []" and "disk w (Name f) = Some [b0, b1, b2, b3, b4, b5, b6, b7]"
    and "BytesToUint16 (order c) (b6, b7) = 0"
  shows "fst (ReadSuperBlock c f w) =
     (case NewReplicaPlacementFromByte c b1 of
        Inl err \<Rightarrow> Inl (CannotReadReplicaType err)
      | Inr rp \<Rightarrow>
          Inr \<lparr>version = b0, ReplicaPlacement = rp, Ttl = LoadTTLFromBytes c (b2, b3),
               CompactRevision = BytesToUint16 (order c) (b4, b5), Extra = None, extraSize = 0\<rparr>)"
  using assms
  by (simp add: ReadSuperBlock_def Seek0_def Read_def enter_def SuperBlockSize_def Let_def
      split: sum.split)

text \<open>
  Without failures of the system calls, only the first 8 bytes of the file decide the
  result, and a file of 1 to 7 bytes is decoded like the same bytes followed by zeros.
\<close>

lemma ReadSuperBlock_ignores_extension:
  assumes "faults w = []" and "disk w (Name f) = Some (h @ xs)" and "length h = 8"
  shows "fst (ReadSuperBlock c f w) =
         fst (ReadSuperBlock c f (w\<lparr>disk := (disk w)(Name f \<mapsto> h @ ys)\<rparr>))"
proof -
  from assms(3) have "h \<noteq> []" by auto
  with assms show ?thesis
    by (simp add: ReadSuperBlock_def Seek0_def Read_def enter_def SuperBlockSize_def Let_def
        split: sum.split)
qed

lemma ReadSuperBlock_short:
  assumes "faults w = []" and "disk w (Name f) = Some bs" and "bs \<noteq> []" and "length bs < 8"
  shows "fst (ReadSuperBlock c f w) =
         fst (ReadSuperBlock c f (w\<lparr>disk := (disk w)(Name f \<mapsto> bs @ replicate (8 - length bs) 0)\<rparr>))"
  using assms
  by (simp add: ReadSuperBlock_def Seek0_def Read_def enter_def SuperBlockSize_def Let_def
      split: sum.split)

text \<open>
  C1, as the code has it: for every header without extension, of any version, whose
  replica placement and time to live are given back by their codecs, the encoder returns
  bytes, and decoding a file that holds these bytes, with no failure of a system call,
  returns the header with all its fields and the cached length 0.
\<close>

theorem C1_roundtrip_without_extension:
  assumes "Extra s = None"
    and "NewReplicaPlacementFromByte c (rp_Byte c (ReplicaPlacement s)) = Inr (ReplicaPlacement s)"
    and "LoadTTLFromBytes c (ttl_ToBytes c (Ttl s)) = Ttl s"
  shows "\<exists>b s'. Bytes c s = Inr (b, s') \<and>
           (\<forall>f w. disk w (Name f) = Some b \<and> faults w = [] \<longrightarrow>
              fst (ReadSuperBlock c f w) = Inr (s\<lparr>extraSize := 0\<rparr>))"
proof (intro exI conjI allI impI)
  show "Bytes c s =
     Inr ([version s, rp_Byte c (ReplicaPlacement s),
           fst (ttl_ToBytes c (Ttl s)), snd (ttl_ToBytes c (Ttl s)),
           fst (Uint16toBytes (order c) (CompactRevision s)),
           snd (Uint16toBytes (order c) (CompactRevision s)), 0, 0], s)"
    using assms(1) by (rule Bytes_None)
next
  fix f :: File and w :: OS
  assume a: "disk w (Name f) =
      Some [version s, rp_Byte c (ReplicaPlacement s),
           fst (ttl_ToBytes c (Ttl s)), snd (ttl_ToBytes c (Ttl s)),
           fst (Uint16toBytes (order c) (CompactRevision s)),
           snd (Uint16toBytes (order c) (CompactRevision s)), 0, 0] \<and> faults w = []"
  then have "fst (ReadSuperBlock c f w) =
      Inr \<lparr>version = version s, ReplicaPlacement = ReplicaPlacement s, Ttl = Ttl s,
           CompactRevision = CompactRevision s, Extra = None, extraSize = 0\<rparr>"
    using assms(2,3)
    by (simp add: ReadSuperBlock_fixed BytesToUint16_zero BytesToUint16_Uint16toBytes)
  also have "\<lparr>version = version s, ReplicaPlacement = ReplicaPlacement s, Ttl = Ttl s,
           CompactRevision = CompactRevision s, Extra = None, extraSize = 0\<rparr> = s\<lparr>extraSize := 0\<rparr>"
    using assms(1) by (cases s) simp
  finally show "fst (ReadSuperBlock c f w) = Inr (s\<lparr>extraSize := 0\<rparr>)" .
qed

theorem C1_roundtrip_without_extension_witness:
  "Bytes (test_codecs BigEndian) header_example = Inr ([2, 0, 0, 0, 0, 5, 0, 0], header_example) \<and>
   fst (ReadSuperBlock (test_codecs BigEndian) dat (one_file ''1.dat'' [2, 0, 0, 0, 0, 5, 0, 0] [])) =
     Inr header_example"
proof -
  have e: "Extra header_example = None"
    by (simp add: header_example_def)
  have r: "NewReplicaPlacementFromByte (test_codecs BigEndian)
             (rp_Byte (test_codecs BigEndian) (ReplicaPlacement header_example)) =
           Inr (ReplicaPlacement header_example)"
    by (simp add: header_example_def test_codecs_def)
  have t: "LoadTTLFromBytes (test_codecs BigEndian)
             (ttl_ToBytes (test_codecs BigEndian) (Ttl header_example)) = Ttl header_example"
    by (simp add: test_codecs_def)
  have b: "Bytes (test_codecs BigEndian) header_example =
             Inr ([2, 0, 0, 0, 0, 5, 0, 0], header_example)"
    by (simp add: header_example_def Bytes_def test_codecs_def Let_def)
  have w: "disk (one_file ''1.dat'' [2, 0, 0, 0, 0, 5, 0, 0] []) (Name dat) = Some [2, 0, 0, 0, 0, 5, 0, 0] \<and>
           faults (one_file ''1.dat'' [2, 0, 0, 0, 0, 5, 0, 0] []) = []"
    by (simp add: one_file_def dat_def)
  have z: "header_example\<lparr>extraSize := 0\<rparr> = header_example"
    by (simp add: header_example_def)
  from C1_roundtrip_without_extension [OF e r t] b w z show ?thesis
    by auto
qed

text \<open>
  C1 as stated fails. A header whose extension is present and marshals to no bytes is
  encoded with a zero length field and decoded without extension, because the decoder
  looks for an extension only under a length above zero. A header with the one-byte
  extension 7 is encoded in 9 bytes and decoded with an extension that is not the one
  encoded (see C2).
\<close>

theorem C1_counterexample:
  "Bytes (test_codecs BigEndian) (header_with_extra []) =
     Inr ([3, 0, 0, 0, 0, 0, 0, 0], header_with_extra []) \<and>
   fst (ReadSuperBlock (test_codecs BigEndian) dat (one_file ''1.dat'' [3, 0, 0, 0, 0, 0, 0, 0] [])) =
     Inr ((header_with_extra [])\<lparr>Extra := None\<rparr>) \<and>
   Extra (header_with_extra []) = Some [] \<and>
   Bytes (test_codecs BigEndian) (header_with_extra [7]) =
     Inr ([3, 0, 0, 0, 0, 0, 0, 1, 7], (header_with_extra [7])\<lparr>extraSize := 1\<rparr>) \<and>
   fst (ReadSuperBlock (test_codecs BigEndian) dat (one_file ''1.dat'' [3, 0, 0, 0, 0, 0, 0, 1, 7] [])) =
     Inr ((header_with_extra [0])\<lparr>extraSize := 1\<rparr>)"
  by (simp add: header_with_extra_def Bytes_def test_codecs_def Let_def
      ReadSuperBlock_def Seek0_def Read_def enter_def one_file_def dat_def SuperBlockSize_def)

text \<open>
  C2 does not hold in the code. The file holds a header with length field 1 followed by
  the extension byte 7. The decoder seeks, reads 8 bytes and makes no other call: the
  handle stays at offset 8, and the extension codec is given one zero byte, the content
  of the fresh buffer, so that the decoded extension is 0 and not 7.
\<close>

theorem C2_extension_bytes_not_read:
  "ReadSuperBlock (test_codecs BigEndian) dat (one_file ''1.dat'' [3, 0, 0, 0, 0, 0, 0, 1, 7] []) =
     (Inr \<lparr>version = 3, ReplicaPlacement = 0, Ttl = (0, 0), CompactRevision = 0,
           Extra = Some [0], extraSize = 1\<rparr>,
      dat\<lparr>offset := 8\<rparr>,
      (one_file ''1.dat'' [3, 0, 0, 0, 0, 0, 0, 1, 7] [])\<lparr>trace := [SysSeek ''1.dat'', SysRead ''1.dat'' 8]\<rparr>)"
  by (simp add: test_codecs_def
      ReadSuperBlock_def Seek0_def Read_def enter_def one_file_def dat_def SuperBlockSize_def)

text \<open>
  C9, as the code has it: decoding a file with no bytes fails, with the wrapped error of
  the seek or of the read, and with the wrapped \<^verbatim>\<open>io.EOF\<close> when no system call is
  made to fail.
\<close>

theorem C9_empty_stream:
  assumes "disk w (Name f) = Some []"
  shows "(\<exists>e. fst (ReadSuperBlock c f w) = Inl (CannotSeek (Name f) e) \<or>
              fst (ReadSuperBlock c f w) = Inl (CannotReadSuperBlock (Name f) e)) \<and>
         (faults w = [] \<longrightarrow>
            fst (ReadSuperBlock c f w) = Inl (CannotReadSuperBlock (Name f) ErrEOF))"
  using assms
  by (auto simp: ReadSuperBlock_def Seek0_def Read_def enter_def SuperBlockSize_def
      split: list.splits option.splits)

theorem C9_empty_stream_witness:
  "fst (ReadSuperBlock (test_codecs BigEndian) dat (one_file ''1.dat'' [] [])) =
     Inl (CannotReadSuperBlock ''1.dat'' ErrEOF)"
proof -
  have d: "disk (one_file ''1.dat'' [] []) (Name dat) = Some []"
    by (simp add: one_file_def dat_def)
  have f: "faults (one_file ''1.dat'' [] []) = []"
    by (simp add: one_file_def)
  from C9_empty_stream [OF d, of "test_codecs BigEndian", THEN conjunct2, rule_format, OF f]
  show ?thesis by (simp add: dat_def)
qed

text \<open>
  C9 as stated fails: the single \<^verbatim>\<open>Read\<close> of a file of one byte returns that byte and
  no error, and the decoder returns a header.
\<close>

theorem C9_counterexample:
  "length [3 :: byte] < 8 \<and>
   fst (ReadSuperBlock (test_codecs BigEndian) dat (one_file ''1.dat'' [3] [])) =
     Inr \<lparr>version = 3, ReplicaPlacement = 0, Ttl = (0, 0), CompactRevision = 0,
          Extra = None, extraSize = 0\<rparr>"
proof -
  have pad: "replicate (8 - length [3 :: byte]) (0 :: byte) = [0, 0, 0, 0, 0, 0, 0]"
    by code_simp
  have "fst (ReadSuperBlock (test_codecs BigEndian) dat (one_file ''1.dat'' [3] [])) =
     Inr \<lparr>version = 3, ReplicaPlacement = 0, Ttl = (0, 0), CompactRevision = 0,
          Extra = None, extraSize = 0\<rparr>"
    by (simp add: test_codecs_def Let_def pad
        ReadSuperBlock_def Seek0_def Read_def enter_def one_file_def dat_def SuperBlockSize_def
        del: list.size)
  then show ?thesis by simp
qed

end
